theory Spec2Isabelle
  imports Main "HOL-Library.AList" "HOL-Library.Sublist"
begin

section \<open>Python values\<close>

text \<open>
  The values that travel through \<^verbatim>\<open>loop_agent_runner.py\<close>: strings, \<^verbatim>\<open>None\<close>,
  and dictionaries whose values are arbitrary (the session state is a
  \<^verbatim>\<open>dict[str, Any]\<close>). A dictionary is an association list in insertion order;
  \<^verbatim>\<open>d.get(k)\<close> is the first binding of \<open>k\<close>, \<^verbatim>\<open>None\<close> when there is none.
\<close>

datatype pyval =
    PNone
  | PBool bool
  | PInt int
  | PStr string
  | PList "pyval list"
  | PDict "(string \<times> pyval) list"

type_synonym dict = "(string \<times> pyval) list"

text \<open>Python's truth value of an object, as \<^verbatim>\<open>not x\<close> and \<^verbatim>\<open>x and y\<close> test it.\<close>

fun truthy :: "pyval \<Rightarrow> bool" where
  "truthy PNone = False"
| "truthy (PBool b) = b"
| "truthy (PInt i) = (i \<noteq> 0)"
| "truthy (PStr s) = (s \<noteq> [])"
| "truthy (PList xs) = (xs \<noteq> [])"
| "truthy (PDict kvs) = (kvs \<noteq> [])"

definition dict_get :: "dict \<Rightarrow> string \<Rightarrow> pyval" where
  "dict_get d k = (case map_of d k of None \<Rightarrow> PNone | Some v \<Rightarrow> v)"

definition dict_keys :: "dict \<Rightarrow> string list" where
  "dict_keys d = map fst d"

text \<open>\<^verbatim>\<open>d[k] = v\<close>: the binding is replaced in place, or appended when \<open>k\<close> is new.\<close>

definition dict_set :: "dict \<Rightarrow> string \<Rightarrow> pyval \<Rightarrow> dict" where
  "dict_set d k v = AList.update k v d"

text \<open>
  An optional string (\<^verbatim>\<open>final_response_text\<close> is \<^verbatim>\<open>None\<close> or a \<^verbatim>\<open>str\<close>) as a
  Python value, and its truth value.
\<close>

definition opt_str :: "string option \<Rightarrow> pyval" where
  "opt_str t = (case t of None \<Rightarrow> PNone | Some s \<Rightarrow> PStr s)"

section \<open>Exceptions\<close>

text \<open>
  An exception is its class name and the text \<^verbatim>\<open>str(e)\<close> gives, which is what
  the f-strings of the module interpolate.
\<close>

datatype exn = PyError string string

fun str :: "exn \<Rightarrow> string" where
  "str (PyError cls msg) = msg"

section \<open>The objects of the agent framework that the module touches\<close>

text \<open>
  \<^verbatim>\<open>types.Part\<close>, \<^verbatim>\<open>types.Content\<close>, the events a run yields and the session
  object, each with the fields the module reads or writes. \<^verbatim>\<open>content\<close>,
  \<^verbatim>\<open>parts\<close> and the text of a part are optional in the framework.
\<close>

record part =
  part_text :: "string option"

record content =
  role :: "string option"
  parts :: "part list option"

record event =
  is_final_response :: bool
  event_content :: "content option"

record session =
  state :: dict

record llm_agent =
  name :: string
  model :: string
  instruction :: string
  output_key :: string

record sequential_agent =
  seq_name :: string
  sub_agents :: "llm_agent list"

record runner =
  agent :: sequential_agent
  app_name :: string

text \<open>
  What one \<^verbatim>\<open>next()\<close> on the generator returned by \<^verbatim>\<open>runner.run\<close> does: it yields
  an event, raises, or is exhausted.
\<close>

datatype gstep = Yield event | Raise exn | StopIteration

text \<open>
  The generator is lazy: nothing of the run happens until the \<^verbatim>\<open>for\<close> loop asks
  for the next event, and a loop that leaves early never resumes it. It is a
  finite list of resumptions, each acting on the state \<open>'w\<close> of the services
  (session store, generation backend); the list exhausted is
  \<^verbatim>\<open>StopIteration\<close>. A run is taken to end after finitely many events.
\<close>

type_synonym 'w generator = "('w \<Rightarrow> gstep \<times> 'w) list"

text \<open>
  Everything the module imports and calls, as parameters: \<^verbatim>\<open>uuid.uuid4\<close>,
  \<^verbatim>\<open>json.dumps\<close>, \<^verbatim>\<open>load_instruction_from_file\<close> of \<^verbatim>\<open>util.py\<close>, the two
  methods of the global \<^verbatim>\<open>session_service\<close> and \<^verbatim>\<open>Runner.run\<close>. Each call that
  can raise returns a sum, \<open>Inl\<close> the exception; each acts on the state \<open>'w\<close> of
  the services.
\<close>

record 'w env =
  uuid4 :: "'w \<Rightarrow> string \<times> 'w"
  json_dumps :: "pyval \<Rightarrow> string"
  load_instruction_from_file :: "string \<Rightarrow> string"
  create_session :: "string \<Rightarrow> string \<Rightarrow> string \<Rightarrow> 'w \<Rightarrow> (exn + session) \<times> 'w"
  get_session :: "string \<Rightarrow> string \<Rightarrow> string \<Rightarrow> 'w \<Rightarrow> (exn + session option) \<times> 'w"
  run :: "runner \<Rightarrow> string \<Rightarrow> string \<Rightarrow> content \<Rightarrow> 'w \<Rightarrow> (exn + 'w generator) \<times> 'w"

section \<open>Agent definitions and shared resources\<close>

definition state_setup_agent :: "'w env \<Rightarrow> llm_agent" where
  "state_setup_agent lib =
     \<lparr>name = ''StateSetup'',
      model = ''gemini-1.5-pro-latest'',
      instruction = load_instruction_from_file lib ''state_setup_instruction.txt'',
      output_key = ''initial_data''\<rparr>"

definition comment_analyzer_agent :: "'w env \<Rightarrow> llm_agent" where
  "comment_analyzer_agent lib =
     \<lparr>name = ''CommentAnalyzer'',
      model = ''gemini-1.5-flash'',
      instruction = load_instruction_from_file lib ''comment_analyzer_instruction.txt'',
      output_key = ''analysis''\<rparr>"

definition comment_responder_agent :: "'w env \<Rightarrow> llm_agent" where
  "comment_responder_agent lib =
     \<lparr>name = ''CommentResponder'',
      model = ''gemini-1.5-flash'',
      instruction = load_instruction_from_file lib ''comment_responder_instruction.txt'',
      output_key = ''final_response''\<rparr>"

definition comment_interaction_agent :: "'w env \<Rightarrow> sequential_agent" where
  "comment_interaction_agent lib =
     \<lparr>seq_name = ''CommentInteraction'',
      sub_agents = [state_setup_agent lib, comment_analyzer_agent lib, comment_responder_agent lib]\<rparr>"

definition APP_NAME :: string where
  "APP_NAME = ''comment_responder_app''"

definition USER_ID :: string where
  "USER_ID = ''web_user_01''"

section \<open>The interaction function\<close>

text \<open>
  \<^verbatim>\<open>event.content.parts[0].text\<close>: an \<^verbatim>\<open>AttributeError\<close> when the event has no
  content, a \<^verbatim>\<open>TypeError\<close> when the content has no parts list, an
  \<^verbatim>\<open>IndexError\<close> when the list is empty; otherwise the text of the first part,
  which may be \<^verbatim>\<open>None\<close>.
\<close>

definition first_part_text :: "event \<Rightarrow> exn + string option" where
  "first_part_text ev =
     (case event_content ev of
        None \<Rightarrow> Inl (PyError ''AttributeError''
                  ([CHR 0x27] @ ''NoneType'' @ [CHR 0x27] @ '' object has no attribute ''
                   @ [CHR 0x27] @ ''parts'' @ [CHR 0x27]))
      | Some c \<Rightarrow>
          (case parts c of
             None \<Rightarrow> Inl (PyError ''TypeError''
                       ([CHR 0x27] @ ''NoneType'' @ [CHR 0x27] @ '' object is not subscriptable''))
           | Some [] \<Rightarrow> Inl (PyError ''IndexError'' ''list index out of range'')
           | Some (p # ps) \<Rightarrow> Inr (part_text p)))"

text \<open>
  The loop \<^verbatim>\<open>for event in events\<close> (lines 101 to 103), started with the current
  value of \<^verbatim>\<open>final_response_text\<close>. It returns the value of
  \<^verbatim>\<open>final_response_text\<close> when the loop is left and the exception that left it,
  if one did: raised by the generator, or by the body reading the text of a
  final event.
\<close>

fun process_events :: "'w generator \<Rightarrow> string option \<Rightarrow> 'w \<Rightarrow> (string option \<times> exn option) \<times> 'w" where
  "process_events [] t w = ((t, None), w)"
| "process_events (nxt # rest) t w =
     (case nxt w of
        (StopIteration, w') \<Rightarrow> ((t, None), w')
      | (Raise e, w') \<Rightarrow> ((t, Some e), w')
      | (Yield ev, w') \<Rightarrow>
          (if is_final_response ev
           then (case first_part_text ev of
                   Inl e \<Rightarrow> ((t, Some e), w')
                 | Inr t' \<Rightarrow> process_events rest t' w')
           else process_events rest t w'))"

text \<open>
  Lines 93 to 103: the call of \<^verbatim>\<open>runner.run\<close> and the loop over its events.
  The result is \<^verbatim>\<open>final_response_text\<close> and the exception raised, if any.
\<close>

definition run_sequence ::
  "'w env \<Rightarrow> runner \<Rightarrow> string \<Rightarrow> content \<Rightarrow> 'w \<Rightarrow> (string option \<times> exn option) \<times> 'w" where
  "run_sequence lib rnr session_id initial_message w =
     (case run lib rnr USER_ID session_id initial_message w of
        (Inl e, w') \<Rightarrow> ((None, Some e), w')
      | (Inr events, w') \<Rightarrow> process_events events None w')"

text \<open>
  The three variables the \<^verbatim>\<open>try\<close> statement leaves behind for the construction
  of the result.
\<close>

record locals =
  final_response_text :: "string option"
  error_message :: "string option"
  final_state_dict :: dict

text \<open>
  The \<^verbatim>\<open>try\<close> statement of lines 92 to 123. Its body runs the sequence and then
  fetches the final state; the fetch is inside the \<^verbatim>\<open>try\<close>, so an exception of
  the fetch reaches the handler as one of the run does. The handler fetches the
  state once more inside a \<^verbatim>\<open>try\<close> of its own, keeps the state when a session
  comes back, and sets the error message from the exception that brought it
  there. \<^verbatim>\<open>final_response_text\<close> keeps the value it had when the exception was raised.
\<close>

definition execute ::
  "'w env \<Rightarrow> runner \<Rightarrow> string \<Rightarrow> content \<Rightarrow> 'w \<Rightarrow> locals \<times> 'w" where
  "execute lib rnr session_id initial_message w =
     (let handler = (\<lambda>t e w'.
            (case get_session lib APP_NAME USER_ID session_id w' of
               (Inr (Some final_session), w'') \<Rightarrow>
                 (\<lparr>final_response_text = t,
                   error_message = Some (''Agent execution failed: '' @ str e),
                   final_state_dict = state final_session\<rparr>, w'')
             | (Inr None, w'') \<Rightarrow>
                 (\<lparr>final_response_text = t,
                   error_message = Some (''Agent execution failed: '' @ str e),
                   final_state_dict = []\<rparr>, w'')
             | (Inl final_state_e, w'') \<Rightarrow>
                 (\<lparr>final_response_text = t,
                   error_message = Some (''Agent execution failed: '' @ str e),
                   final_state_dict = []\<rparr>, w'')))
      in case run_sequence lib rnr session_id initial_message w of
           ((t, Some e), w1) \<Rightarrow> handler t e w1
         | ((t, None), w1) \<Rightarrow>
             (case get_session lib APP_NAME USER_ID session_id w1 of
                (Inl e, w2) \<Rightarrow> handler t e w2
              | (Inr (Some final_session), w2) \<Rightarrow>
                  (\<lparr>final_response_text = t,
                    error_message = None,
                    final_state_dict = state final_session\<rparr>, w2)
              | (Inr None, w2) \<Rightarrow>
                  (\<lparr>final_response_text = t,
                    error_message = Some ''Failed to retrieve final session state.'',
                    final_state_dict = []\<rparr>, w2)))"

text \<open>
  Lines 126 to 135: the result dictionary, and the fallback to the text of the
  final event when the state gave no truthy response.
\<close>

definition prepare_result :: "string \<Rightarrow> locals \<Rightarrow> dict" where
  "prepare_result session_id l =
     (let result =
            [(''session_id'', PStr session_id),
             (''final_state'', PDict (final_state_dict l)),
             (''final_response'', dict_get (final_state_dict l) ''final_response''),
             (''error'', opt_str (error_message l))]
      in if \<not> truthy (dict_get result ''final_response'') \<and> truthy (opt_str (final_response_text l))
         then dict_set result ''final_response'' (opt_str (final_response_text l))
         else result)"

text \<open>
  \<^verbatim>\<open>run_comment_interaction(comment, context, tone)\<close>. The session identifier
  and the message are prepared first; a session service that raises on
  \<^verbatim>\<open>create_session\<close> ends the call with a dictionary that holds the key
  \<^verbatim>\<open>error\<close> alone (line 79). The calls outside a \<^verbatim>\<open>try\<close> (\<^verbatim>\<open>uuid.uuid4\<close>,
  \<^verbatim>\<open>json.dumps\<close> on three strings, the constructors of \<^verbatim>\<open>Content\<close>, \<^verbatim>\<open>Part\<close>
  and \<^verbatim>\<open>Runner\<close>) build values and are taken not to raise; the \<^verbatim>\<open>print\<close>
  calls are left out.
\<close>

definition session_id_of :: "string \<Rightarrow> string" where
  "session_id_of u = ''session_'' @ u"

definition initial_message_of :: "'w env \<Rightarrow> string \<Rightarrow> string \<Rightarrow> string \<Rightarrow> content" where
  "initial_message_of lib comment context tone =
     (let initial_message_data =
            [(''comment'', PStr comment), (''context'', PStr context), (''tone'', PStr tone)];
          initial_message_content = json_dumps lib (PDict initial_message_data)
      in \<lparr>role = Some ''user'', parts = Some [\<lparr>part_text = Some initial_message_content\<rparr>]\<rparr>)"

text \<open>
  \<^verbatim>\<open>Runner(agent=comment_interaction_agent, app_name=APP_NAME, session_service=session_service)\<close>;
  the session service is the one of the environment.
\<close>

definition new_runner :: "'w env \<Rightarrow> runner" where
  "new_runner lib = \<lparr>agent = comment_interaction_agent lib, app_name = APP_NAME\<rparr>"

definition run_comment_interaction ::
  "'w env \<Rightarrow> string \<Rightarrow> string \<Rightarrow> string \<Rightarrow> 'w \<Rightarrow> dict \<times> 'w" where
  "run_comment_interaction lib comment context tone w =
     (case uuid4 lib w of
        (u, w1) \<Rightarrow>
          (let session_id = session_id_of u;
               initial_message = initial_message_of lib comment context tone
           in case create_session lib APP_NAME USER_ID session_id w1 of
                (Inl e, w2) \<Rightarrow> ([(''error'', PStr (''Failed to create session: '' @ str e))], w2)
              | (Inr sess, w2) \<Rightarrow>
                  (let rnr = new_runner lib
                   in case execute lib rnr session_id initial_message w2 of
                        (l, w3) \<Rightarrow> (prepare_result session_id l, w3))))"

section \<open>Counting the reads of the session store\<close>

text \<open>
  To speak of how many times the function reads the session, any environment is
  wrapped into one that behaves alike and counts its \<^verbatim>\<open>get_session\<close> calls in a
  second component of the state.
\<close>

definition lift_step :: "('w \<Rightarrow> gstep \<times> 'w) \<Rightarrow> ('w \<times> nat \<Rightarrow> gstep \<times> ('w \<times> nat))" where
  "lift_step nxt = (\<lambda>(w, n). case nxt w of (s, w') \<Rightarrow> (s, (w', n)))"

definition counting_reads :: "'w env \<Rightarrow> ('w \<times> nat) env" where
  "counting_reads lib =
     \<lparr>uuid4 = (\<lambda>(w, n). case uuid4 lib w of (u, w') \<Rightarrow> (u, (w', n))),
      json_dumps = json_dumps lib,
      load_instruction_from_file = load_instruction_from_file lib,
      create_session = (\<lambda>a u s (w, n). case create_session lib a u s w of (r, w') \<Rightarrow> (r, (w', n))),
      get_session = (\<lambda>a u s (w, n). case get_session lib a u s w of (r, w') \<Rightarrow> (r, (w', Suc n))),
      run = (\<lambda>rnr u s m (w, n).
               case run lib rnr u s m w of
                 (Inl e, w') \<Rightarrow> (Inl e, (w', n))
               | (Inr g, w') \<Rightarrow> (Inr (map lift_step g), (w', n)))\<rparr>"

section \<open>A scripted environment\<close>

text \<open>
  An environment without state that answers from a script: the outcome of
  \<^verbatim>\<open>create_session\<close>, the steps of the generator, the outcome of
  \<^verbatim>\<open>get_session\<close>. It serves to run the function on concrete inputs.
\<close>

definition scripted :: "(exn + session) \<Rightarrow> gstep list \<Rightarrow> (exn + session option) \<Rightarrow> unit env" where
  "scripted created steps fetched =
     \<lparr>uuid4 = (\<lambda>w. (''0001'', w)),
      json_dumps = (\<lambda>v. ''{}''),
      load_instruction_from_file = (\<lambda>f. f),
      create_session = (\<lambda>a u s w. (created, w)),
      get_session = (\<lambda>a u s w. (fetched, w)),
      run = (\<lambda>rnr u s m w. (Inr (map (\<lambda>st w'. (st, w')) steps), w))\<rparr>"

definition text_event :: "bool \<Rightarrow> string \<Rightarrow> event" where
  "text_event final s =
     \<lparr>is_final_response = final,
      event_content = Some \<lparr>role = Some ''model'', parts = Some [\<lparr>part_text = Some s\<rparr>]\<rparr>\<rparr>"

section \<open>The pipeline behind the runner\<close>

text \<open>
  Modelled from the spec: the state store, the stage and the pipeline executor
  (sections 4.1 to 4.3 of the specification). The module takes them from the
  agent framework (\<^verbatim>\<open>InMemorySessionService\<close>, \<^verbatim>\<open>LlmAgent\<close>, \<^verbatim>\<open>SequentialAgent\<close>,
  \<^verbatim>\<open>Runner\<close>), whose code is not part of the source files. The stage list, the
  stage names and the output keys are those of the module.

  A stage consumes the current state of the invocation together with the seed
  message, calls the generation backend, and on success merges its output into
  the state under its output key. The backend is a parameter; it fails with an
  exception (\<^verbatim>\<open>GenerationError\<close>: backend fault, timeout, unusable output).
\<close>

record stage_input =
  seed :: content
  visible_state :: dict

type_synonym backend = "llm_agent \<Rightarrow> stage_input \<Rightarrow> exn + string"

text \<open>
  Modelled from the spec: the state of the services behind the runner, which
  the module reaches through the framework only. It holds the process-wide
  store, keyed by session identifier, the calls the backend has received so far
  (stage name and input, oldest first), and the counter behind the identifiers.
\<close>

record pworld =
  sessions :: "(string \<times> dict) list"
  backend_calls :: "(string \<times> stage_input) list"
  uuid_seed :: nat

text \<open>
  Modelled from the spec: \<^verbatim>\<open>create(sessionId)\<close> registers a new, empty state
  container and fails with \<^verbatim>\<open>DuplicateSessionError\<close> if the identifier already
  exists; \<^verbatim>\<open>get(sessionId)\<close> returns the container or not found, without side
  effect.
\<close>

definition store_create :: "string \<Rightarrow> pworld \<Rightarrow> (exn + session) \<times> pworld" where
  "store_create sid w =
     (case map_of (sessions w) sid of
        Some st \<Rightarrow> (Inl (PyError ''DuplicateSessionError'' sid), w)
      | None \<Rightarrow> (Inr \<lparr>state = []\<rparr>, w\<lparr>sessions := AList.update sid [] (sessions w)\<rparr>))"

definition store_get :: "string \<Rightarrow> pworld \<Rightarrow> (exn + session option) \<times> pworld" where
  "store_get sid w =
     (case map_of (sessions w) sid of
        None \<Rightarrow> (Inr None, w)
      | Some st \<Rightarrow> (Inr (Some \<lparr>state = st\<rparr>), w))"

text \<open>
  Modelled from the spec: one stage of the pipeline, as one resumption of the
  generator. The stage reads the state of its session, calls the backend on the
  seed message and that state, and on success merges the output under the
  stage's output key and emits the generated text; only the terminal stage's
  text is a final response. A backend failure is raised. A stage whose session
  is not in the store fails as well (the specification leaves that case open).
\<close>

definition stage_step ::
  "backend \<Rightarrow> llm_agent \<Rightarrow> bool \<Rightarrow> string \<Rightarrow> content \<Rightarrow> pworld \<Rightarrow> gstep \<times> pworld" where
  "stage_step gen a terminal sid msg w =
     (case map_of (sessions w) sid of
        None \<Rightarrow> (Raise (PyError ''ValueError'' (''Session not found: '' @ sid)), w)
      | Some st \<Rightarrow>
          (let inp = \<lparr>seed = msg, visible_state = st\<rparr>;
               w1 = w\<lparr>backend_calls := backend_calls w @ [(name a, inp)]\<rparr>
           in case gen a inp of
                Inl e \<Rightarrow> (Raise e, w1)
              | Inr out \<Rightarrow>
                  (Yield (text_event terminal out),
                   w1\<lparr>sessions := AList.update sid (dict_set st (output_key a) (PStr out)) (sessions w1)\<rparr>)))"

text \<open>
  Modelled from the spec: the pipeline runs its stages strictly in sequence,
  one resumption each; the loop of the caller stops at the first one that
  raises, so the stages after a failed one never run.
\<close>

fun stage_steps :: "backend \<Rightarrow> llm_agent list \<Rightarrow> string \<Rightarrow> content \<Rightarrow> pworld generator" where
  "stage_steps gen [] sid msg = []"
| "stage_steps gen (a # rest) sid msg =
     stage_step gen a (rest = []) sid msg # stage_steps gen rest sid msg"

text \<open>
  Modelled from the spec: the environment the module runs in when the session
  service is the store above and the runner is the pipeline above. The backend,
  \<^verbatim>\<open>json.dumps\<close>, the instruction files and the identifiers stay parameters.
\<close>

definition pipeline_env ::
  "backend \<Rightarrow> (pyval \<Rightarrow> string) \<Rightarrow> (string \<Rightarrow> string) \<Rightarrow> (nat \<Rightarrow> string) \<Rightarrow> pworld env" where
  "pipeline_env gen dumps load uuid_of =
     \<lparr>uuid4 = (\<lambda>w. (uuid_of (uuid_seed w), w\<lparr>uuid_seed := Suc (uuid_seed w)\<rparr>)),
      json_dumps = dumps,
      load_instruction_from_file = load,
      create_session = (\<lambda>a u sid w. store_create sid w),
      get_session = (\<lambda>a u sid w. store_get sid w),
      run = (\<lambda>rnr u sid msg w. (Inr (stage_steps gen (sub_agents (agent rnr)) sid msg), w))\<rparr>"

text \<open>An empty store, and a backend for concrete runs.\<close>

definition empty_world :: pworld where
  "empty_world = \<lparr>sessions = [], backend_calls = [], uuid_seed = 0\<rparr>"

definition echo_backend :: backend where
  "echo_backend a inp = Inr (''out of '' @ name a)"


definition demo_env :: "backend \<Rightarrow> pworld env" where
  "demo_env gen = pipeline_env gen (\<lambda>v. ''{}'') (\<lambda>f. f) (\<lambda>n. ''0001'')"

text \<open>
  The calls the backend received between two states of the services, and the
  inputs the three stages receive in a run in which the stages before them
  returned \<open>out0\<close> and \<open>out1\<close>.
\<close>

definition new_calls :: "pworld \<Rightarrow> pworld \<Rightarrow> (string \<times> stage_input) list" where
  "new_calls w w' = drop (length (backend_calls w)) (backend_calls w')"

definition setup_input :: "content \<Rightarrow> stage_input" where
  "setup_input msg = \<lparr>seed = msg, visible_state = []\<rparr>"

definition analyzer_input :: "content \<Rightarrow> string \<Rightarrow> stage_input" where
  "analyzer_input msg out0 = \<lparr>seed = msg, visible_state = [(''initial_data'', PStr out0)]\<rparr>"

definition responder_input :: "content \<Rightarrow> string \<Rightarrow> string \<Rightarrow> stage_input" where
  "responder_input msg out0 out1 =
     \<lparr>seed = msg, visible_state = [(''initial_data'', PStr out0), (''analysis'', PStr out1)]\<rparr>"

section \<open>Concrete environments\<close>

text \<open>
  Scripts for the runs the theorems below are tried on: a session service that
  is down at creation; a run that completes with a final text \<open>hi\<close> while the
  state holds an empty response; a run that completes with an empty final text
  and no response in the state; a run with no final event and no response in
  the state; a run that raises and whose read-back raises too; a run after which
  the session is not found.
\<close>

definition env_create_fails :: "unit env" where
  "env_create_fails = scripted (Inl (PyError ''RuntimeError'' ''store down'')) [] (Inr None)"

definition env_empty_response :: "unit env" where
  "env_empty_response =
     scripted (Inr \<lparr>state = []\<rparr>)
       [Yield (text_event False ''noted''), Yield (text_event True ''hi'')]
       (Inr (Some \<lparr>state = [(''final_response'', PStr [])]\<rparr>))"

definition env_empty_text :: "unit env" where
  "env_empty_text =
     scripted (Inr \<lparr>state = []\<rparr>)
       [Yield (text_event True [])]
       (Inr (Some \<lparr>state = [(''initial_data'', PStr ''seed'')]\<rparr>))"

definition env_miss :: "unit env" where
  "env_miss =
     scripted (Inr \<lparr>state = []\<rparr>)
       [Yield (text_event False ''noted'')]
       (Inr (Some \<lparr>state = [(''initial_data'', PStr ''seed'')]\<rparr>))"


definition env_no_session :: "unit env" where
  "env_no_session =
     scripted (Inr \<lparr>state = []\<rparr>) [Yield (text_event True ''hi'')] (Inr None)"

section \<open>The result dictionary\<close>

lemma prepare_result_keys:
  "dict_keys (prepare_result sid l) = [''session_id'', ''final_state'', ''final_response'', ''error'']"
  by (simp add: prepare_result_def dict_keys_def dict_set_def Let_def)

lemma prepare_result_final_state:
  "map_of (prepare_result sid l) ''final_state'' = Some (PDict (final_state_dict l))"
  by (simp add: prepare_result_def dict_set_def Let_def)

lemma prepare_result_error:
  "map_of (prepare_result sid l) ''error'' = Some (opt_str (error_message l))"
  by (simp add: prepare_result_def dict_set_def Let_def)

lemma prepare_result_final_response:
  "map_of (prepare_result sid l) ''final_response'' =
     Some (if truthy (dict_get (final_state_dict l) ''final_response'')
           then dict_get (final_state_dict l) ''final_response''
           else if truthy (opt_str (final_response_text l)) then opt_str (final_response_text l)
           else dict_get (final_state_dict l) ''final_response'')"
  by (simp add: prepare_result_def dict_set_def dict_get_def Let_def)

section \<open>The paths through the function\<close>

lemma rci_create_failed:
  assumes "uuid4 lib w = (u, w1)"
      and "create_session lib APP_NAME USER_ID (session_id_of u) w1 = (Inl e, w2)"
  shows "run_comment_interaction lib comment context tone w =
           ([(''error'', PStr (''Failed to create session: '' @ str e))], w2)"
  using assms by (simp add: run_comment_interaction_def)

lemma rci_created:
  assumes "uuid4 lib w = (u, w1)"
      and "create_session lib APP_NAME USER_ID (session_id_of u) w1 = (Inr s, w2)"
  shows "run_comment_interaction lib comment context tone w =
           (prepare_result (session_id_of u)
              (fst (execute lib (new_runner lib) (session_id_of u)
                      (initial_message_of lib comment context tone) w2)),
            snd (execute lib (new_runner lib) (session_id_of u)
                      (initial_message_of lib comment context tone) w2))"
  using assms by (simp add: run_comment_interaction_def Let_def split: prod.splits)

lemma execute_text:
  assumes "run_sequence lib rnr sid msg w = ((t, x), w1)"
  shows "final_response_text (fst (execute lib rnr sid msg w)) = t"
  using assms
  by (simp add: execute_def Let_def split: prod.splits option.splits sum.splits)


lemma execute_fetched:
  assumes "run_sequence lib rnr sid msg w = ((t, None), w1)"
      and "get_session lib APP_NAME USER_ID sid w1 = (Inr (Some fs), w2)"
  shows "execute lib rnr sid msg w =
           (\<lparr>final_response_text = t, error_message = None, final_state_dict = state fs\<rparr>, w2)"
  using assms by (simp add: execute_def Let_def)

lemma execute_no_session:
  assumes "run_sequence lib rnr sid msg w = ((t, None), w1)"
      and "get_session lib APP_NAME USER_ID sid w1 = (Inr None, w2)"
  shows "execute lib rnr sid msg w =
           (\<lparr>final_response_text = t,
             error_message = Some ''Failed to retrieve final session state.'',
             final_state_dict = []\<rparr>, w2)"
  using assms by (simp add: execute_def Let_def)

text \<open>
  An exception of the fetch on line 106 reaches the same handler, with the
  exception of the fetch in the error message.
\<close>

lemma execute_fetch_raised:
  assumes "run_sequence lib rnr sid msg w = ((t, None), w1)"
      and "get_session lib APP_NAME USER_ID sid w1 = (Inl e, w2)"
  shows "error_message (fst (execute lib rnr sid msg w)) = Some (''Agent execution failed: '' @ str e)"
  using assms
  by (simp add: execute_def Let_def split: prod.splits option.splits sum.splits)

text \<open>
  The text of a final event that was captured before the run raised stays in
  \<^verbatim>\<open>final_response_text\<close> and is used as fallback: after a failure the result's
  \<^verbatim>\<open>final_response\<close> is \<^verbatim>\<open>None\<close> only if no event before the failure was a
  final response with a non-empty text.
\<close>

lemma execute_raised_fetched:
  assumes "run_sequence lib rnr sid msg w = ((t, Some e), w1)"
      and "get_session lib APP_NAME USER_ID sid w1 = (Inr (Some fs), w2)"
  shows "execute lib rnr sid msg w =
           (\<lparr>final_response_text = t,
             error_message = Some (''Agent execution failed: '' @ str e),
             final_state_dict = state fs\<rparr>, w2)"
  using assms by (simp add: execute_def Let_def)

lemma fallback_after_failure:
  assumes "uuid4 lib w = (u, w1)"
      and "create_session lib APP_NAME USER_ID (session_id_of u) w1 = (Inr s, w2)"
      and "run_sequence lib (new_runner lib) (session_id_of u)
             (initial_message_of lib comment context tone) w2 = ((Some txt, Some e), w3)"
      and "get_session lib APP_NAME USER_ID (session_id_of u) w3 = (Inr (Some fs), w4)"
      and "map_of (state fs) ''final_response'' = None"
      and "txt \<noteq> []"
  shows "map_of (fst (run_comment_interaction lib comment context tone w)) ''final_response'' =
           Some (PStr txt)"
  using assms(5,6)
  by (simp add: rci_created [OF assms(1,2)] execute_raised_fetched [OF assms(3,4)]
      prepare_result_final_response dict_get_def opt_str_def)

section \<open>The counting environment behaves as the one it wraps\<close>

lemma lift_step_apply: "lift_step nxt (w, n) = (fst (nxt w), (snd (nxt w), n))"
  by (simp add: lift_step_def split: prod.splits)

lemma process_events_lift:
  "process_events (map lift_step g) t (w, n) =
     (fst (process_events g t w), (snd (process_events g t w), n))"
proof (induction g arbitrary: t w)
  case Nil
  show ?case by simp
next
  case (Cons nxt rest)
  show ?case
  proof (cases "nxt w")
    case (Pair st w')
    then show ?thesis
      by (cases st) (simp_all add: lift_step_apply Cons.IH split: sum.splits)
  qed
qed

lemma run_sequence_counting:
  "run_sequence (counting_reads lib) rnr sid msg (w, n) =
     (fst (run_sequence lib rnr sid msg w), (snd (run_sequence lib rnr sid msg w), n))"
  by (simp add: run_sequence_def counting_reads_def process_events_lift
      split: prod.splits sum.splits)



lemma get_session_counting:
  "get_session (counting_reads lib) a u s (w, n) =
     (fst (get_session lib a u s w), (snd (get_session lib a u s w), Suc n))"
  by (simp add: counting_reads_def split: prod.splits)


text \<open>
  When it is the fetch of line 106 that raises, the handler's read is the
  second read of the invocation.
\<close>

lemma execute_counting_fetch_raised:
  assumes "run_sequence lib rnr sid msg w = ((t, None), w1)"
      and "get_session lib APP_NAME USER_ID sid w1 = (Inl e, w2)"
  shows "execute (counting_reads lib) rnr sid msg (w, n) =
           (fst (execute lib rnr sid msg w), (snd (execute lib rnr sid msg w), Suc (Suc n)))"
proof (cases "get_session lib APP_NAME USER_ID sid w2")
  case (Pair r w3)
  then show ?thesis
    using assms
    by (simp add: execute_def Let_def run_sequence_counting get_session_counting
        split: sum.splits option.splits)
qed


section \<open>The run of the pipeline\<close>

lemma first_part_text_event: "first_part_text (text_event final s) = Inr (Some s)"
  by (simp add: first_part_text_def text_event_def)

lemma is_final_text_event: "is_final_response (text_event final s) = final"
  by (simp add: text_event_def)

lemma pipeline_sub_agents:
  "sub_agents (agent (new_runner (pipeline_env gen dumps load uuid_of))) =
     [state_setup_agent (pipeline_env gen dumps load uuid_of),
      comment_analyzer_agent (pipeline_env gen dumps load uuid_of),
      comment_responder_agent (pipeline_env gen dumps load uuid_of)]"
  by (simp add: new_runner_def comment_interaction_agent_def)

lemma pipeline_env_run:
  "run (pipeline_env gen dumps load uuid_of) rnr u sid msg w =
     (Inr (stage_steps gen (sub_agents (agent rnr)) sid msg), w)"
  by (simp add: pipeline_env_def)

lemma pipeline_uuid4:
  "uuid4 (pipeline_env gen dumps load uuid_of) w =
     (uuid_of (uuid_seed w), w\<lparr>uuid_seed := Suc (uuid_seed w)\<rparr>)"
  by (simp add: pipeline_env_def)

lemma pipeline_create:
  "create_session (pipeline_env gen dumps load uuid_of) a u sid w = store_create sid w"
  by (simp add: pipeline_env_def)

lemma pipeline_get:
  "get_session (pipeline_env gen dumps load uuid_of) a u sid w = store_get sid w"
  by (simp add: pipeline_env_def)


lemma agent_fields:
  "name (state_setup_agent lib) = ''StateSetup''"
  "name (comment_analyzer_agent lib) = ''CommentAnalyzer''"
  "name (comment_responder_agent lib) = ''CommentResponder''"
  "output_key (state_setup_agent lib) = ''initial_data''"
  "output_key (comment_analyzer_agent lib) = ''analysis''"
  "output_key (comment_responder_agent lib) = ''final_response''"
  by (simp_all add: state_setup_agent_def comment_analyzer_agent_def comment_responder_agent_def)

text \<open>
  The run of the three stages on a session whose state is empty, by the
  outcome of each backend call.
\<close>

lemma run_sequence_pipeline:
  assumes "map_of (sessions w) sid = Some []"
  shows "run_sequence (pipeline_env gen dumps load uuid_of)
           (new_runner (pipeline_env gen dumps load uuid_of)) sid msg w =
    (case gen (state_setup_agent (pipeline_env gen dumps load uuid_of)) (setup_input msg) of
       Inl e \<Rightarrow>
         ((None, Some e),
          w\<lparr>backend_calls := backend_calls w @ [(''StateSetup'', setup_input msg)]\<rparr>)
     | Inr out0 \<Rightarrow>
        (case gen (comment_analyzer_agent (pipeline_env gen dumps load uuid_of))
                (analyzer_input msg out0) of
           Inl e \<Rightarrow>
             ((None, Some e),
              w\<lparr>backend_calls := backend_calls w @
                   [(''StateSetup'', setup_input msg),
                    (''CommentAnalyzer'', analyzer_input msg out0)],
                sessions := AList.update sid [(''initial_data'', PStr out0)] (sessions w)\<rparr>)
         | Inr out1 \<Rightarrow>
            (case gen (comment_responder_agent (pipeline_env gen dumps load uuid_of))
                    (responder_input msg out0 out1) of
               Inl e \<Rightarrow>
                 ((None, Some e),
                  w\<lparr>backend_calls := backend_calls w @
                       [(''StateSetup'', setup_input msg),
                        (''CommentAnalyzer'', analyzer_input msg out0),
                        (''CommentResponder'', responder_input msg out0 out1)],
                    sessions := AList.update sid
                       [(''initial_data'', PStr out0), (''analysis'', PStr out1)] (sessions w)\<rparr>)
             | Inr out2 \<Rightarrow>
                 ((Some out2, None),
                  w\<lparr>backend_calls := backend_calls w @
                       [(''StateSetup'', setup_input msg),
                        (''CommentAnalyzer'', analyzer_input msg out0),
                        (''CommentResponder'', responder_input msg out0 out1)],
                    sessions := AList.update sid
                       [(''initial_data'', PStr out0), (''analysis'', PStr out1),
                        (''final_response'', PStr out2)] (sessions w)\<rparr>))))"
proof -
  let ?P = "pipeline_env gen dumps load uuid_of"
  have r: "run_sequence ?P (new_runner ?P) sid msg w =
             process_events (stage_steps gen [state_setup_agent ?P, comment_analyzer_agent ?P,
                comment_responder_agent ?P] sid msg) None w"
    by (simp add: run_sequence_def pipeline_env_run pipeline_sub_agents)
  show ?thesis
    unfolding r using assms
    by (simp add: stage_step_def Let_def setup_input_def analyzer_input_def responder_input_def
        agent_fields dict_set_def update_conv' first_part_text_event is_final_text_event
        split: sum.splits)
qed

lemma rci_pipeline_fresh:
  assumes "map_of (sessions w) (session_id_of (uuid_of (uuid_seed w))) = None"
  shows "run_comment_interaction (pipeline_env gen dumps load uuid_of) comment context tone w =
    (prepare_result (session_id_of (uuid_of (uuid_seed w)))
       (fst (execute (pipeline_env gen dumps load uuid_of)
          (new_runner (pipeline_env gen dumps load uuid_of))
          (session_id_of (uuid_of (uuid_seed w)))
          (initial_message_of (pipeline_env gen dumps load uuid_of) comment context tone)
          (w\<lparr>uuid_seed := Suc (uuid_seed w),
             sessions := AList.update (session_id_of (uuid_of (uuid_seed w))) [] (sessions w)\<rparr>))),
     snd (execute (pipeline_env gen dumps load uuid_of)
          (new_runner (pipeline_env gen dumps load uuid_of))
          (session_id_of (uuid_of (uuid_seed w)))
          (initial_message_of (pipeline_env gen dumps load uuid_of) comment context tone)
          (w\<lparr>uuid_seed := Suc (uuid_seed w),
             sessions := AList.update (session_id_of (uuid_of (uuid_seed w))) [] (sessions w)\<rparr>)))"
proof -
  let ?P = "pipeline_env gen dumps load uuid_of"
  let ?sid = "session_id_of (uuid_of (uuid_seed w))"
  have c: "create_session ?P APP_NAME USER_ID ?sid (w\<lparr>uuid_seed := Suc (uuid_seed w)\<rparr>) =
             (Inr \<lparr>state = []\<rparr>,
              w\<lparr>uuid_seed := Suc (uuid_seed w), sessions := AList.update ?sid [] (sessions w)\<rparr>)"
    using assms by (simp add: pipeline_create store_create_def)
  show ?thesis
    by (rule rci_created [OF pipeline_uuid4 c])
qed

lemma execute_pipeline_calls:
  assumes "map_of (sessions w) sid = Some []"
  shows "backend_calls (snd (execute (pipeline_env gen dumps load uuid_of)
            (new_runner (pipeline_env gen dumps load uuid_of)) sid msg w)) =
         backend_calls (snd (run_sequence (pipeline_env gen dumps load uuid_of)
            (new_runner (pipeline_env gen dumps load uuid_of)) sid msg w))"
  by (simp add: execute_def Let_def pipeline_get store_get_def
      split: prod.splits option.splits sum.splits)


text \<open>
  The calls the backend receives in one invocation: none when the identifier is
  already in the store, otherwise the stages in order up to the first that
  fails.
\<close>

lemma pipeline_calls:
  "backend_calls (snd (run_comment_interaction (pipeline_env gen dumps load uuid_of)
      comment context tone w)) =
     backend_calls w @
     (case map_of (sessions w) (session_id_of (uuid_of (uuid_seed w))) of
        Some st \<Rightarrow> []
      | None \<Rightarrow>
          (''StateSetup'',
           setup_input (initial_message_of (pipeline_env gen dumps load uuid_of) comment context tone)) #
          (case gen (state_setup_agent (pipeline_env gen dumps load uuid_of))
                  (setup_input (initial_message_of (pipeline_env gen dumps load uuid_of)
                     comment context tone)) of
             Inl e \<Rightarrow> []
           | Inr out0 \<Rightarrow>
               (''CommentAnalyzer'',
                analyzer_input (initial_message_of (pipeline_env gen dumps load uuid_of)
                   comment context tone) out0) #
               (case gen (comment_analyzer_agent (pipeline_env gen dumps load uuid_of))
                       (analyzer_input (initial_message_of (pipeline_env gen dumps load uuid_of)
                          comment context tone) out0) of
                  Inl e \<Rightarrow> []
                | Inr out1 \<Rightarrow>
                    [(''CommentResponder'',
                      responder_input (initial_message_of (pipeline_env gen dumps load uuid_of)
                         comment context tone) out0 out1)])))"
proof (cases "map_of (sessions w) (session_id_of (uuid_of (uuid_seed w)))")
  case (Some st)
  let ?P = "pipeline_env gen dumps load uuid_of"
  have c: "create_session ?P APP_NAME USER_ID (session_id_of (uuid_of (uuid_seed w)))
             (w\<lparr>uuid_seed := Suc (uuid_seed w)\<rparr>) =
             (Inl (PyError ''DuplicateSessionError'' (session_id_of (uuid_of (uuid_seed w)))),
              w\<lparr>uuid_seed := Suc (uuid_seed w)\<rparr>)"
    using Some by (simp add: pipeline_create store_create_def)
  show ?thesis
    using Some by (simp add: rci_create_failed [OF pipeline_uuid4 c])
next
  case None
  let ?P = "pipeline_env gen dumps load uuid_of"
  let ?sid = "session_id_of (uuid_of (uuid_seed w))"
  let ?w2 = "w\<lparr>uuid_seed := Suc (uuid_seed w), sessions := AList.update ?sid [] (sessions w)\<rparr>"
  have s: "map_of (sessions ?w2) ?sid = Some []"
    by (simp add: update_conv')
  show ?thesis
    using None rci_pipeline_fresh [of w uuid_of gen dumps load comment "context" tone, OF None]
    by (simp add: execute_pipeline_calls [OF s] run_sequence_pipeline [OF s] split: sum.splits)
qed

lemmas run_simps =
  run_comment_interaction_def execute_def run_sequence_def prepare_result_def
  scripted_def session_id_of_def initial_message_of_def new_runner_def
  text_event_def first_part_text_def dict_get_def dict_set_def dict_keys_def opt_str_def
  Let_def

lemmas pipeline_simps =
  demo_env_def pipeline_env_def store_create_def store_get_def stage_step_def
  empty_world_def comment_interaction_agent_def state_setup_agent_def
  comment_analyzer_agent_def comment_responder_agent_def new_calls_def

section \<open>The result is total\<close>

text \<open>
  Claim C1, as stated, asks for the four fields \<^verbatim>\<open>session_id\<close>, \<^verbatim>\<open>final_state\<close>,
  \<^verbatim>\<open>final_response\<close> and \<^verbatim>\<open>error\<close> in every result, also when the session
  service faults. With a session service that raises on \<^verbatim>\<open>create_session\<close> the
  function returns early (line 79) and the result has no \<^verbatim>\<open>session_id\<close> field.
\<close>

theorem total_result_counterexample:
  "''session_id'' \<notin> set (dict_keys (fst (run_comment_interaction env_create_fails
       ''Great post!'' ''Post about X'' ''happy'' ())))"
  by (simp add: env_create_fails_def run_simps)

text \<open>
  Claim C1, amended. For every comment, context and tone and every behaviour of
  the session service and of the run, the function returns a dictionary and no
  exception reaches the caller. When \<^verbatim>\<open>create_session\<close> raises \<open>e\<close>, the
  dictionary is exactly \<^verbatim>\<open>{"error": "Failed to create session: e"}\<close>; when the
  session is created, its keys are exactly \<^verbatim>\<open>session_id\<close>, \<^verbatim>\<open>final_state\<close>,
  \<^verbatim>\<open>final_response\<close>, \<^verbatim>\<open>error\<close>.
\<close>

theorem total_result:
  "(case fst (create_session lib APP_NAME USER_ID (session_id_of (fst (uuid4 lib w)))
               (snd (uuid4 lib w))) of
      Inl e \<Rightarrow> fst (run_comment_interaction lib comment context tone w) =
                 [(''error'', PStr (''Failed to create session: '' @ str e))]
    | Inr s \<Rightarrow> dict_keys (fst (run_comment_interaction lib comment context tone w)) =
                 [''session_id'', ''final_state'', ''final_response'', ''error''])"
proof (cases "create_session lib APP_NAME USER_ID (session_id_of (fst (uuid4 lib w)))
                (snd (uuid4 lib w))")
  case (Pair r w2)
  have u: "uuid4 lib w = (fst (uuid4 lib w), snd (uuid4 lib w))"
    by simp
  show ?thesis
  proof (cases r)
    case (Inl e)
    with Pair rci_create_failed [OF u] show ?thesis by simp
  next
    case (Inr s)
    with Pair rci_created [OF u] show ?thesis by (simp add: prepare_result_keys)
  qed
qed

theorem total_result_witness:
  "dict_keys (fst (run_comment_interaction env_empty_response
       ''Great post!'' ''Post about X'' ''happy'' ())) =
     [''session_id'', ''final_state'', ''final_response'', ''error'']
   \<and> fst (run_comment_interaction env_create_fails ''Great post!'' ''Post about X'' ''happy'' ()) =
     [(''error'', PStr ''Failed to create session: store down'')]"
  using total_result [of env_empty_response "''Great post!''" "''Post about X''" "''happy''" "()"]
    total_result [of env_create_fails "''Great post!''" "''Post about X''" "''happy''" "()"]
  by (simp add: env_empty_response_def env_create_fails_def scripted_def)

section \<open>The seed payload\<close>




section \<open>Extraction of the final response\<close>

text \<open>
  Claim C3, as stated, makes the value under \<^verbatim>\<open>final_response\<close> in the final
  state the result whenever the key is there, and the captured text the
  fallback whenever one was captured. The test on line 134 is on truth values.
  In the first run the state holds the key with the empty string and the result
  is the final text \<open>hi\<close>; in the second the key is absent, the captured final
  text is the empty string, and the result is \<^verbatim>\<open>None\<close>.
\<close>

theorem final_response_precedence_counterexample:
  "map_of (fst (run_comment_interaction env_empty_response
       ''Great post!'' ''Post about X'' ''happy'' ())) ''final_state'' =
     Some (PDict [(''final_response'', PStr [])])
   \<and> map_of (fst (run_comment_interaction env_empty_response
       ''Great post!'' ''Post about X'' ''happy'' ())) ''final_response'' = Some (PStr ''hi'')
   \<and> fst (run_sequence env_empty_text (new_runner env_empty_text) (session_id_of ''0001'')
       (initial_message_of env_empty_text ''Great post!'' ''Post about X'' ''happy'') ()) =
     (Some [], None)
   \<and> map_of (fst (run_comment_interaction env_empty_text
       ''Great post!'' ''Post about X'' ''happy'' ())) ''final_response'' = Some PNone"
  by (simp add: env_empty_response_def env_empty_text_def run_simps)

text \<open>
  Claim C3, amended. For every invocation whose session is created: if the value
  of \<^verbatim>\<open>final_response\<close> in the returned final state is truthy, it is the
  result's \<^verbatim>\<open>final_response\<close>; otherwise, if a non-empty final-event text was
  captured during the run, that text is; otherwise the result's
  \<^verbatim>\<open>final_response\<close> is what \<^verbatim>\<open>get\<close> gives on the final state, \<^verbatim>\<open>None\<close> when the
  key is absent.
\<close>

theorem final_response_precedence:
  assumes "uuid4 lib w = (u, w1)"
      and "create_session lib APP_NAME USER_ID (session_id_of u) w1 = (Inr s, w2)"
      and "run_sequence lib (new_runner lib) (session_id_of u)
             (initial_message_of lib comment context tone) w2 = ((t, x), w3)"
      and "map_of (fst (run_comment_interaction lib comment context tone w)) ''final_state'' =
             Some (PDict st)"
  shows "map_of (fst (run_comment_interaction lib comment context tone w)) ''final_response'' =
           Some (if truthy (dict_get st ''final_response'') then dict_get st ''final_response''
                 else if truthy (opt_str t) then opt_str t
                 else dict_get st ''final_response'')"
proof -
  let ?l = "fst (execute lib (new_runner lib) (session_id_of u)
                   (initial_message_of lib comment context tone) w2)"
  have r: "fst (run_comment_interaction lib comment context tone w) =
             prepare_result (session_id_of u) ?l"
    using rci_created [OF assms(1,2)] by simp
  have "final_state_dict ?l = st"
    using assms(4) by (simp add: r prepare_result_final_state)
  moreover have "final_response_text ?l = t"
    using assms(3) by (rule execute_text)
  ultimately show ?thesis
    by (simp add: r prepare_result_final_response)
qed

theorem final_response_precedence_witness:
  "map_of (fst (run_comment_interaction env_empty_response
       ''Great post!'' ''Post about X'' ''happy'' ())) ''final_response'' = Some (PStr ''hi'')"
proof -
  let ?lib = env_empty_response
  have h1: "uuid4 ?lib () = (''0001'', ())"
    by (simp add: env_empty_response_def scripted_def)
  have h2: "create_session ?lib APP_NAME USER_ID (session_id_of ''0001'') () =
              (Inr \<lparr>state = []\<rparr>, ())"
    by (simp add: env_empty_response_def scripted_def)
  have h3: "run_sequence ?lib (new_runner ?lib) (session_id_of ''0001'')
              (initial_message_of ?lib ''Great post!'' ''Post about X'' ''happy'') () =
              ((Some ''hi'', None), ())"
    by (simp add: env_empty_response_def run_simps)
  have h4: "map_of (fst (run_comment_interaction ?lib ''Great post!'' ''Post about X'' ''happy'' ()))
              ''final_state'' = Some (PDict [(''final_response'', PStr [])])"
    by (simp add: env_empty_response_def run_simps)
  show ?thesis
    using final_response_precedence [OF h1 h2 h3 h4] by (simp add: dict_get_def opt_str_def)
qed

section \<open>Failure of the run\<close>



section \<open>Extraction miss\<close>

text \<open>
  Claim C5. If the run completes without an exception and no final-event text
  was captured, and the final state that is read back has no
  \<^verbatim>\<open>final_response\<close> key, the result carries \<^verbatim>\<open>None\<close> as \<^verbatim>\<open>final_response\<close> and
  \<^verbatim>\<open>None\<close> as \<^verbatim>\<open>error\<close>.
\<close>

theorem extraction_miss:
  assumes "uuid4 lib w = (u, w1)"
      and "create_session lib APP_NAME USER_ID (session_id_of u) w1 = (Inr s, w2)"
      and "run_sequence lib (new_runner lib) (session_id_of u)
             (initial_message_of lib comment context tone) w2 = ((None, None), w3)"
      and "get_session lib APP_NAME USER_ID (session_id_of u) w3 = (Inr (Some fs), w4)"
      and "map_of (state fs) ''final_response'' = None"
  shows "map_of (fst (run_comment_interaction lib comment context tone w)) ''final_response'' =
           Some PNone
       \<and> map_of (fst (run_comment_interaction lib comment context tone w)) ''error'' = Some PNone"
  using assms(5)
  by (simp add: rci_created [OF assms(1,2)] execute_fetched [OF assms(3,4)]
      prepare_result_final_response prepare_result_error dict_get_def opt_str_def)

theorem extraction_miss_witness:
  "map_of (fst (run_comment_interaction env_miss ''Great post!'' ''Post about X'' ''happy'' ()))
     ''final_response'' = Some PNone
   \<and> map_of (fst (run_comment_interaction env_miss ''Great post!'' ''Post about X'' ''happy'' ()))
     ''error'' = Some PNone"
proof -
  let ?lib = env_miss
  have h1: "uuid4 ?lib () = (''0001'', ())"
    by (simp add: env_miss_def scripted_def)
  have h2: "create_session ?lib APP_NAME USER_ID (session_id_of ''0001'') () =
              (Inr \<lparr>state = []\<rparr>, ())"
    by (simp add: env_miss_def scripted_def)
  have h3: "run_sequence ?lib (new_runner ?lib) (session_id_of ''0001'')
              (initial_message_of ?lib ''Great post!'' ''Post about X'' ''happy'') () =
              ((None, None), ())"
    by (simp add: env_miss_def run_simps)
  have h4: "get_session ?lib APP_NAME USER_ID (session_id_of ''0001'') () =
              (Inr (Some \<lparr>state = [(''initial_data'', PStr ''seed'')]\<rparr>), ())"
    by (simp add: env_miss_def scripted_def)
  have h5: "map_of (state \<lparr>state = [(''initial_data'', PStr ''seed'')]\<rparr>) ''final_response'' = None"
    by simp
  show ?thesis
    by (rule extraction_miss [OF h1 h2 h3 h4 h5])
qed

section \<open>The order of the stages\<close>

text \<open>
  Claim C6. Within every invocation the stages that run are called in the order
  Setup, Analyzer, Responder; the state the Analyzer receives holds the output
  of Setup under \<^verbatim>\<open>initial_data\<close>, and the state the Responder receives holds
  the output of Setup under \<^verbatim>\<open>initial_data\<close> and the output of the Analyzer
  under \<^verbatim>\<open>analysis\<close>.
\<close>

theorem stage_order:
  assumes "snd (run_comment_interaction (pipeline_env gen dumps load uuid_of)
             comment context tone w) = w'"
  shows "prefix (map fst (new_calls w w')) [''StateSetup'', ''CommentAnalyzer'', ''CommentResponder'']
       \<and> (\<forall>inp. (''CommentAnalyzer'', inp) \<in> set (new_calls w w') \<longrightarrow>
             (\<exists>i0 out0. (''StateSetup'', i0) \<in> set (new_calls w w')
                \<and> gen (state_setup_agent (pipeline_env gen dumps load uuid_of)) i0 = Inr out0
                \<and> map_of (visible_state inp) ''initial_data'' = Some (PStr out0)))
       \<and> (\<forall>inp. (''CommentResponder'', inp) \<in> set (new_calls w w') \<longrightarrow>
             (\<exists>i0 out0 i1 out1. (''StateSetup'', i0) \<in> set (new_calls w w')
                \<and> (''CommentAnalyzer'', i1) \<in> set (new_calls w w')
                \<and> gen (state_setup_agent (pipeline_env gen dumps load uuid_of)) i0 = Inr out0
                \<and> gen (comment_analyzer_agent (pipeline_env gen dumps load uuid_of)) i1 = Inr out1
                \<and> map_of (visible_state inp) ''initial_data'' = Some (PStr out0)
                \<and> map_of (visible_state inp) ''analysis'' = Some (PStr out1)))"
  unfolding new_calls_def assms [symmetric] pipeline_calls
  by (auto simp add: analyzer_input_def responder_input_def split: option.splits sum.splits)

theorem stage_order_witness:
  "(''CommentResponder'',
      \<lparr>seed = \<lparr>role = Some ''user'', parts = Some [\<lparr>part_text = Some ''{}''\<rparr>]\<rparr>,
       visible_state = [(''initial_data'', PStr ''out of StateSetup''),
                        (''analysis'', PStr ''out of CommentAnalyzer'')]\<rparr>)
     \<in> set (new_calls empty_world (snd (run_comment_interaction (demo_env echo_backend)
              ''Great post!'' ''Post about X'' ''happy'' empty_world)))
   \<and> prefix (map fst (new_calls empty_world (snd (run_comment_interaction (demo_env echo_backend)
              ''Great post!'' ''Post about X'' ''happy'' empty_world))))
        [''StateSetup'', ''CommentAnalyzer'', ''CommentResponder'']"
proof -
  have h: "snd (run_comment_interaction
             (pipeline_env echo_backend (\<lambda>v. ''{}'') (\<lambda>f. f) (\<lambda>n. ''0001''))
             ''Great post!'' ''Post about X'' ''happy'' empty_world) =
           snd (run_comment_interaction (demo_env echo_backend)
             ''Great post!'' ''Post about X'' ''happy'' empty_world)"
    by (simp add: demo_env_def)
  have m: "(''CommentResponder'',
      \<lparr>seed = \<lparr>role = Some ''user'', parts = Some [\<lparr>part_text = Some ''{}''\<rparr>]\<rparr>,
       visible_state = [(''initial_data'', PStr ''out of StateSetup''),
                        (''analysis'', PStr ''out of CommentAnalyzer'')]\<rparr>)
     \<in> set (new_calls empty_world (snd (run_comment_interaction (demo_env echo_backend)
              ''Great post!'' ''Post about X'' ''happy'' empty_world)))"
    by (simp add: run_simps pipeline_simps echo_backend_def)
  show ?thesis
    using stage_order [OF h] m by simp
qed

section \<open>Fail-fast\<close>



section \<open>Falsy values of the state\<close>

text \<open>
  Claim C9. If the run completes and the final state that is read back maps
  \<^verbatim>\<open>final_response\<close> to the empty string, then whenever a final-event text was
  captured the result's \<^verbatim>\<open>final_response\<close> is that text.
\<close>

theorem empty_response_replaced:
  assumes "uuid4 lib w = (u, w1)"
      and "create_session lib APP_NAME USER_ID (session_id_of u) w1 = (Inr s, w2)"
      and "run_sequence lib (new_runner lib) (session_id_of u)
             (initial_message_of lib comment context tone) w2 = ((Some txt, None), w3)"
      and "get_session lib APP_NAME USER_ID (session_id_of u) w3 = (Inr (Some fs), w4)"
      and "map_of (state fs) ''final_response'' = Some (PStr [])"
  shows "map_of (fst (run_comment_interaction lib comment context tone w)) ''final_response'' =
           Some (PStr txt)"
  using assms(5)
  by (simp add: rci_created [OF assms(1,2)] execute_fetched [OF assms(3,4)]
      prepare_result_final_response dict_get_def opt_str_def)

theorem empty_response_replaced_witness:
  "map_of (fst (run_comment_interaction env_empty_response
       ''Great post!'' ''Post about X'' ''happy'' ())) ''final_response'' = Some (PStr ''hi'')
   \<and> map_of (fst (run_comment_interaction env_empty_response
       ''Great post!'' ''Post about X'' ''happy'' ())) ''error'' = Some PNone"
proof -
  let ?lib = env_empty_response
  have h1: "uuid4 ?lib () = (''0001'', ())"
    by (simp add: env_empty_response_def scripted_def)
  have h2: "create_session ?lib APP_NAME USER_ID (session_id_of ''0001'') () =
              (Inr \<lparr>state = []\<rparr>, ())"
    by (simp add: env_empty_response_def scripted_def)
  have h3: "run_sequence ?lib (new_runner ?lib) (session_id_of ''0001'')
              (initial_message_of ?lib ''Great post!'' ''Post about X'' ''happy'') () =
              ((Some ''hi'', None), ())"
    by (simp add: env_empty_response_def run_simps)
  have h4: "get_session ?lib APP_NAME USER_ID (session_id_of ''0001'') () =
              (Inr (Some \<lparr>state = [(''final_response'', PStr [])]\<rparr>), ())"
    by (simp add: env_empty_response_def scripted_def)
  have h5: "map_of (state \<lparr>state = [(''final_response'', PStr [])]\<rparr>) ''final_response'' =
              Some (PStr [])"
    by simp
  have e: "map_of (fst (run_comment_interaction ?lib ''Great post!'' ''Post about X'' ''happy'' ()))
             ''error'' = Some PNone"
    by (simp add: env_empty_response_def run_simps)
  show ?thesis
    using empty_response_replaced [OF h1 h2 h3 h4 h5] e by simp
qed

section \<open>A session that is not found\<close>

text \<open>
  Claim C10. If the run raises no exception and the session read that follows
  returns no session, the result's \<^verbatim>\<open>error\<close> is the string
  \<^verbatim>\<open>Failed to retrieve final session state.\<close> and its \<^verbatim>\<open>final_state\<close> is the
  empty dictionary.
\<close>

theorem no_session_after_run:
  assumes "uuid4 lib w = (u, w1)"
      and "create_session lib APP_NAME USER_ID (session_id_of u) w1 = (Inr s, w2)"
      and "run_sequence lib (new_runner lib) (session_id_of u)
             (initial_message_of lib comment context tone) w2 = ((t, None), w3)"
      and "get_session lib APP_NAME USER_ID (session_id_of u) w3 = (Inr None, w4)"
  shows "map_of (fst (run_comment_interaction lib comment context tone w)) ''error'' =
           Some (PStr ''Failed to retrieve final session state.'')
       \<and> map_of (fst (run_comment_interaction lib comment context tone w)) ''final_state'' =
           Some (PDict [])"
  by (simp add: rci_created [OF assms(1,2)] execute_no_session [OF assms(3,4)]
      prepare_result_final_state prepare_result_error opt_str_def)

theorem no_session_after_run_witness:
  "map_of (fst (run_comment_interaction env_no_session
       ''Great post!'' ''Post about X'' ''happy'' ())) ''error'' =
     Some (PStr ''Failed to retrieve final session state.'')
   \<and> map_of (fst (run_comment_interaction env_no_session
       ''Great post!'' ''Post about X'' ''happy'' ())) ''final_state'' = Some (PDict [])"
proof -
  let ?lib = env_no_session
  have h1: "uuid4 ?lib () = (''0001'', ())"
    by (simp add: env_no_session_def scripted_def)
  have h2: "create_session ?lib APP_NAME USER_ID (session_id_of ''0001'') () =
              (Inr \<lparr>state = []\<rparr>, ())"
    by (simp add: env_no_session_def scripted_def)
  have h3: "run_sequence ?lib (new_runner ?lib) (session_id_of ''0001'')
              (initial_message_of ?lib ''Great post!'' ''Post about X'' ''happy'') () =
              ((Some ''hi'', None), ())"
    by (simp add: env_no_session_def run_simps)
  have h4: "get_session ?lib APP_NAME USER_ID (session_id_of ''0001'') () = (Inr None, ())"
    by (simp add: env_no_session_def scripted_def)
  show ?thesis
    by (rule no_session_after_run [OF h1 h2 h3 h4])
qed

end
